theory Spec2Isabelle
  imports Complex_Main "HOL-Library.Sublist"
begin

section \<open>Rapid Photo Downloader: translation bootstrap and the toggle view\<close>

text \<open>
  Two source files are embedded: \<^verbatim>\<open>raphodo/__init__.py\<close> (where the gettext
  catalogs are looked for, and how the module installs the lookup function \<^verbatim>\<open>_\<close>) and
  \<^verbatim>\<open>raphodo/ui/toggleview.py\<close> (the class \<^verbatim>\<open>QToggleView\<close>).
\<close>

subsection \<open>Python values the code uses\<close>

type_synonym path = string

text \<open>
  What a call can raise. \<open>Exception n\<close> is an instance of any other class \<open>n\<close> derived
  from Python's \<^verbatim>\<open>Exception\<close>; \<open>BaseException n\<close> is an instance of a class that
  derives from \<^verbatim>\<open>BaseException\<close> only (\<^verbatim>\<open>KeyboardInterrupt\<close>,
  \<^verbatim>\<open>SystemExit\<close>), which \<^verbatim>\<open>except Exception\<close> does not catch.
\<close>

datatype py_exception =
    AssertionError
  | FileNotFoundError
  | Exception string
  | BaseException string


text \<open>\<^verbatim>\<open>b.startswith("/")\<close> and \<^verbatim>\<open>path.endswith("/")\<close>.\<close>

definition startswith_sep :: "string \<Rightarrow> bool" where
  "startswith_sep b = (case b of [] \<Rightarrow> False | c # cs \<Rightarrow> c = CHR ''/'')"

definition endswith_sep :: "string \<Rightarrow> bool" where
  "endswith_sep p = (p \<noteq> [] \<and> last p = CHR ''/'')"

text \<open>
  \<^verbatim>\<open>os.path.join(a, *p)\<close> of \<^verbatim>\<open>posixpath\<close>: a component that starts with the
  separator replaces all that came before it.
\<close>

fun os_path_join :: "path \<Rightarrow> path list \<Rightarrow> path" where
  "os_path_join a [] = a"
| "os_path_join a (b # p) =
     os_path_join
       (if startswith_sep b then b
        else if a = [] \<or> endswith_sep a then a @ b
        else a @ ''/'' @ b) p"

text \<open>
  \<^verbatim>\<open>s.find(sub)\<close>: the lowest index at which \<open>sub\<close> occurs in \<open>s\<close>, or \<open>-1\<close>.
\<close>

fun str_find :: "string \<Rightarrow> string \<Rightarrow> int" where
  "str_find [] sub = (if sub = [] then 0 else - 1)"
| "str_find (c # cs) sub =
     (if prefix sub (c # cs) then 0
      else (let r = str_find cs sub in if r < 0 then - 1 else r + 1))"

subsection \<open>The process environment and the file system\<close>

type_synonym environ = "string \<rightharpoonup> string"

text \<open>\<^verbatim>\<open>os.getenv(key, default)\<close>.\<close>

definition os_getenv :: "environ \<Rightarrow> string \<Rightarrow> string \<Rightarrow> string" where
  "os_getenv env k dflt = (case env k of None \<Rightarrow> dflt | Some v \<Rightarrow> v)"

text \<open>
  The file system as the calls of the module see it: what \<^verbatim>\<open>stat\<close> finds at a path
  (nothing, or a file of some kind with its modification time, a float of seconds), and
  whether the process may read it.
\<close>

datatype file_kind = RegularFile | Directory | OtherFile

record inode =
  kind :: file_kind
  readable :: bool
  st_mtime :: real

type_synonym filesystem = "path \<rightharpoonup> inode"

definition os_path_isfile :: "filesystem \<Rightarrow> path \<Rightarrow> bool" where
  "os_path_isfile fs p = (case fs p of None \<Rightarrow> False | Some n \<Rightarrow> kind n = RegularFile)"

definition os_path_isdir :: "filesystem \<Rightarrow> path \<Rightarrow> bool" where
  "os_path_isdir fs p = (case fs p of None \<Rightarrow> False | Some n \<Rightarrow> kind n = Directory)"

text \<open>\<^verbatim>\<open>os.access(p, os.R_OK)\<close>: false for a path that does not exist.\<close>

definition os_access_R_OK :: "filesystem \<Rightarrow> path \<Rightarrow> bool" where
  "os_access_R_OK fs p = (case fs p of None \<Rightarrow> False | Some n \<Rightarrow> readable n)"

text \<open>\<^verbatim>\<open>os.path.getmtime(p)\<close> raises for a path that does not exist.\<close>

definition os_path_getmtime :: "filesystem \<Rightarrow> path \<Rightarrow> py_exception + real" where
  "os_path_getmtime fs p =
     (case fs p of None \<Rightarrow> Inl FileNotFoundError | Some n \<Rightarrow> Inr (st_mtime n))"

text \<open>
  \<^verbatim>\<open>Path(p).is_dir()\<close>: \<^verbatim>\<open>Path("")\<close> is the current directory \<^verbatim>\<open>"."\<close>; the other
  rewritings of \<^verbatim>\<open>pathlib\<close> (repeated and trailing separators) name the same file.
\<close>

definition Path_is_dir :: "filesystem \<Rightarrow> path \<Rightarrow> bool" where
  "Path_is_dir fs p = os_path_isdir fs (if p = [] then ''.'' else p)"

subsection \<open>\<^verbatim>\<open>raphodo/__init__.py\<close>: the locale directory\<close>

definition i18n_domain :: string where
  "i18n_domain = ''rapid-photo-downloader''"

definition sample_translation :: path where
  "sample_translation =
     (let mo_file = i18n_domain @ ''.mo''
      in os_path_join ''es'' [''LC_MESSAGES'', mo_file])"

text \<open>
  The condition of the \<^verbatim>\<open>if\<close> in the loop of \<^verbatim>\<open>locale_directory\<close>. Python's
  \<^verbatim>\<open>and\<close> evaluates its operands in order and stops at the first false one, so
  \<^verbatim>\<open>getmtime\<close> is called only on a readable regular file.
\<close>

definition sample_is_newer :: "filesystem \<Rightarrow> path \<Rightarrow> real \<Rightarrow> py_exception + bool" where
  "sample_is_newer fs sample_path locale_mtime =
     (if \<not> os_path_isfile fs sample_path then Inr False
      else if \<not> os_access_R_OK fs sample_path then Inr False
      else (case os_path_getmtime fs sample_path of
              Inl e \<Rightarrow> Inl e
            | Inr m \<Rightarrow> Inr (m > locale_mtime)))"

text \<open>
  The loop \<^verbatim>\<open>for path in (data_home, "/usr/share")\<close> over the paths still to visit,
  with the loop's variables \<^verbatim>\<open>locale_mtime\<close> and \<^verbatim>\<open>locale_dir\<close>. The body assigns
  \<^verbatim>\<open>locale_dir\<close> only: \<^verbatim>\<open>locale_mtime\<close> keeps its value.
\<close>

fun locale_loop ::
  "filesystem \<Rightarrow> path list \<Rightarrow> real \<Rightarrow> path option \<Rightarrow> py_exception + path option" where
  "locale_loop fs [] locale_mtime locale_dir = Inr locale_dir"
| "locale_loop fs (p # rest) locale_mtime locale_dir =
     (let locale_path = os_path_join p [''locale''];
          sample_path = os_path_join locale_path [sample_translation]
      in case sample_is_newer fs sample_path locale_mtime of
           Inl e \<Rightarrow> Inl e
         | Inr newer \<Rightarrow>
             locale_loop fs rest locale_mtime
               (if newer then Some locale_path else locale_dir))"

text \<open>
  Lines 64 to 80 of \<^verbatim>\<open>locale_directory\<close>: the comparison of the two candidates.
  \<open>data_home\<close> is what \<^verbatim>\<open>QStandardPaths.writableLocation(GenericDataLocation)\<close>
  returned.
\<close>

definition locale_candidates :: "filesystem \<Rightarrow> path \<Rightarrow> py_exception + path option" where
  "locale_candidates fs data_home =
     (let locale_mtime = 0;
          locale_dir = None
      in if \<not> Path_is_dir fs data_home then Inl AssertionError
         else locale_loop fs [data_home, ''/usr/share''] locale_mtime locale_dir)"

definition locale_directory ::
  "environ \<Rightarrow> filesystem \<Rightarrow> path \<Rightarrow> py_exception + path option" where
  "locale_directory env fs data_home =
     (let snap_name = os_getenv env ''SNAP_NAME'' ''''
      in if str_find snap_name ''rapid-photo-downloader'' \<ge> 0 then
           (let snap_dir = os_getenv env ''SNAP'' ''''
            in Inr (Some (os_path_join snap_dir [''/usr/lib/locale''])))
         else
           (let locale_dir = env ''RPD_I18N_DIR''
            in if locale_dir \<noteq> None \<and> os_path_isdir fs (the locale_dir)
               then Inr locale_dir
               else locale_candidates fs data_home))"


subsection \<open>\<^verbatim>\<open>raphodo/__init__.py\<close>: installing the translation\<close>





subsection \<open>\<^verbatim>\<open>raphodo/ui/toggleview.py\<close>: the widgets\<close>

text \<open>
  A widget is a Python object: it is known by its identity, and two names can hold the
  same widget. The visibility flags that \<^verbatim>\<open>setVisible\<close> writes are kept in a store
  from identities to flags.
\<close>

type_synonym widget = nat

type_synonym QColor = string

datatype QSize = QSize (width: int) (height: int)

text \<open>
  Modelled from the spec: the toggle control \<^verbatim>\<open>QToggleSwitch\<close> of
  \<^verbatim>\<open>raphodo/ui/toggleswitch.py\<close>, a file that is not among the sources. The spec
  calls it the source of truth of the boolean toggle state; it carries the header colour
  as its background and a tooltip when one is given.
\<close>

record QToggleSwitch =
  switch_on :: bool
  background :: QColor
  toolTip :: "string option"

text \<open>
  Modelled from the spec: the constructor of \<^verbatim>\<open>QToggleSwitch\<close>
  (\<^verbatim>\<open>raphodo/ui/toggleswitch.py\<close>, not among the sources), called with the header
  colour as background. The spec does not say which state a new control holds; it is off
  here, and \<^verbatim>\<open>QToggleView.__init__\<close> applies the initial state to it at once.
\<close>

definition QToggleSwitch_init :: "QColor \<Rightarrow> QToggleSwitch" where
  "QToggleSwitch_init background' =
     \<lparr>switch_on = False, background = background', toolTip = None\<rparr>"

definition setToolTip :: "string \<Rightarrow> QToggleSwitch \<Rightarrow> QToggleSwitch" where
  "setToolTip t sw = sw\<lparr>toolTip := Some t\<rparr>"

text \<open>
  What the constructor of the view takes from its surroundings: the dark-mode flag of
  \<^verbatim>\<open>is_dark_mode()\<close>, the two colour names of \<^verbatim>\<open>raphodo.constants\<close>, the new
  object that \<^verbatim>\<open>BlankWidget()\<close> returns, the visibility flags of the application's
  widgets, and the height the toolkit gives the header.
\<close>

record toolkit =
  is_dark_mode :: bool
  DarkModeHeaderBackgroundName :: QColor
  HeaderBackgroundName :: QColor
  new_BlankWidget :: widget
  widget_visible :: "widget \<Rightarrow> bool"
  new_header_height :: int

text \<open>
  The view and what its methods change. \<open>label\<close> to \<open>layout_items\<close> are the part of
  the base class \<^verbatim>\<open>QPanelView\<close>; \<open>objectName\<close>, \<open>alternateWidget\<close> and
  \<open>toggleSwitch\<close> are assigned by \<^verbatim>\<open>QToggleView.__init__\<close>. \<open>visible\<close> is the store
  of visibility flags, \<open>valueChanged\<close> the payloads the signal \<^verbatim>\<open>valueChanged\<close> was
  emitted with (oldest first), \<open>updateGeometry_calls\<close> counts the calls of
  \<^verbatim>\<open>updateGeometry()\<close>.
\<close>

record QToggleView =
  label :: string
  headerColor :: QColor
  headerFontColor :: "QColor option"
  parent :: "widget option"
  header_height :: int
  content :: "widget option"
  layout_items :: "widget list"
  objectName :: string
  alternateWidget :: "widget option"
  toggleSwitch :: QToggleSwitch
  visible :: "widget \<Rightarrow> bool"
  valueChanged :: "bool list"
  updateGeometry_calls :: nat

text \<open>
  Modelled from the spec: \<^verbatim>\<open>QPanelView.__init__\<close> of \<^verbatim>\<open>raphodo/ui/panelview.py\<close>,
  which is not among the sources. It builds the header with the label and the colours;
  no content is attached at construction. The fields the subclass assigns afterwards
  hold empty values until then.
\<close>

definition QPanelView_init ::
  "toolkit \<Rightarrow> string \<Rightarrow> QColor \<Rightarrow> QColor option \<Rightarrow> widget option \<Rightarrow> QToggleView" where
  "QPanelView_init tk label' headerColor' headerFontColor' parent' =
     \<lparr>label = label', headerColor = headerColor', headerFontColor = headerFontColor',
      parent = parent', header_height = new_header_height tk, content = None,
      layout_items = [], objectName = '''', alternateWidget = None,
      toggleSwitch = QToggleSwitch_init '''',
      visible = widget_visible tk, valueChanged = [], updateGeometry_calls = 0\<rparr>"

text \<open>
  Modelled from the spec: \<^verbatim>\<open>QPanelView.addWidget\<close> of \<^verbatim>\<open>raphodo/ui/panelview.py\<close>,
  which is not among the sources. It attaches the widget as the panel's content,
  replacing the previous content in the layout or adding to the layout.
\<close>

definition QPanelView_addWidget :: "widget \<Rightarrow> QToggleView \<Rightarrow> QToggleView" where
  "QPanelView_addWidget w v =
     v\<lparr>layout_items :=
         (case content v of
            None \<Rightarrow> layout_items v
          | Some old \<Rightarrow> remove1 old (layout_items v)) @ [w],
       content := Some w\<rparr>"

text \<open>
  Modelled from the spec: \<^verbatim>\<open>QToggleSwitch.on\<close> of \<^verbatim>\<open>raphodo/ui/toggleswitch.py\<close>,
  which is not among the sources: the control's own boolean state.
\<close>

definition QToggleSwitch_on :: "QToggleSwitch \<Rightarrow> bool" where
  "QToggleSwitch_on sw = switch_on sw"

subsection \<open>\<^verbatim>\<open>raphodo/ui/toggleview.py\<close>: the methods of \<^verbatim>\<open>QToggleView\<close>\<close>

definition on :: "QToggleView \<Rightarrow> bool" where
  "on v = QToggleSwitch_on (toggleSwitch v)"

text \<open>\<^verbatim>\<open>w.setVisible(b)\<close> and \<^verbatim>\<open>self.valueChanged.emit(b)\<close>.\<close>

definition setVisible :: "widget \<Rightarrow> bool \<Rightarrow> QToggleView \<Rightarrow> QToggleView" where
  "setVisible w b v = v\<lparr>visible := (visible v)(w := b)\<rparr>"

definition emit_valueChanged :: "bool \<Rightarrow> QToggleView \<Rightarrow> QToggleView" where
  "emit_valueChanged b v = v\<lparr>valueChanged := valueChanged v @ [b]\<rparr>"

text \<open>The slot \<^verbatim>\<open>toggled(self, value: int)\<close>; it does not read \<open>val\<close>.\<close>

definition toggled :: "int \<Rightarrow> QToggleView \<Rightarrow> QToggleView" where
  "toggled val v =
     (let v1 =
        (case content v of
           None \<Rightarrow> v
         | Some c \<Rightarrow>
             (let v' = setVisible c (on v) v
              in case alternateWidget v' of
                   None \<Rightarrow> v'
                 | Some a \<Rightarrow> setVisible a (\<not> on v') v'))
      in emit_valueChanged (on v1) v1)"

text \<open>
  Modelled from the spec: the control takes a value and sends its value-change
  notification, which carries the new value. This is \<^verbatim>\<open>QToggleSwitch\<close> of
  \<^verbatim>\<open>raphodo/ui/toggleswitch.py\<close>, not among the sources; the spec gives a change made by
  the user and \<^verbatim>\<open>QToggleSwitch.setOn\<close> the same path. The constructor connects the
  notification to the slot \<^verbatim>\<open>toggled\<close> (line 81), so the slot runs with the payload.
\<close>

definition QToggleSwitch_change :: "bool \<Rightarrow> QToggleView \<Rightarrow> QToggleView" where
  "QToggleSwitch_change b v =
     toggled (if b then 1 else 0)
       (v\<lparr>toggleSwitch := (toggleSwitch v)\<lparr>switch_on := b\<rparr>\<rparr>)"

text \<open>
  Modelled from the spec: \<^verbatim>\<open>QToggleSwitch.setOn\<close> of \<^verbatim>\<open>raphodo/ui/toggleswitch.py\<close>,
  which is not among the sources. It forces the control to the value, which triggers the
  transition as a change made by the user does.
\<close>

definition QToggleSwitch_setOn :: "bool \<Rightarrow> QToggleView \<Rightarrow> QToggleView" where
  "QToggleSwitch_setOn isOn v = QToggleSwitch_change isOn v"

text \<open>
  \<^verbatim>\<open>QToggleView.__init__\<close>. Python's \<^verbatim>\<open>if toggleToolTip:\<close> holds for a string that
  is neither \<^verbatim>\<open>None\<close> nor empty. The calls that only arrange the header (the margins
  of line 70, \<^verbatim>\<open>addHeaderWidget\<close> of line 84) change nothing that is kept here.
\<close>

definition QToggleView_init ::
  "toolkit \<Rightarrow> string \<Rightarrow> bool \<Rightarrow> string \<Rightarrow> string option \<Rightarrow> QColor option \<Rightarrow>
   QColor option \<Rightarrow> bool \<Rightarrow> widget option \<Rightarrow> QToggleView" where
  "QToggleView_init tk label' display_alternate object_name toggleToolTip headerColor'
       headerFontColor' on' parent' =
     (let hc = (case headerColor' of
                  None \<Rightarrow>
                    if is_dark_mode tk then DarkModeHeaderBackgroundName tk
                    else HeaderBackgroundName tk
                | Some c \<Rightarrow> c);
          v0 = QPanelView_init tk label' hc headerFontColor' parent';
          v1 = v0\<lparr>objectName := object_name\<rparr>;
          v2 = (if display_alternate
                then v1\<lparr>alternateWidget := Some (new_BlankWidget tk),
                        layout_items := layout_items v1 @ [new_BlankWidget tk]\<rparr>
                else v1\<lparr>alternateWidget := None\<rparr>);
          v3 = v2\<lparr>toggleSwitch := QToggleSwitch_init hc\<rparr>;
          v4 = (case toggleToolTip of
                  None \<Rightarrow> v3
                | Some t \<Rightarrow>
                    if t = [] then v3
                    else v3\<lparr>toggleSwitch := setToolTip t (toggleSwitch v3)\<rparr>)
      in QToggleSwitch_setOn on' v4)"

definition addWidget :: "widget \<Rightarrow> QToggleView \<Rightarrow> QToggleView" where
  "addWidget w v = toggled 0 (QPanelView_addWidget w v)"

definition setOn :: "bool \<Rightarrow> QToggleView \<Rightarrow> QToggleView" where
  "setOn isOn v = QToggleSwitch_setOn isOn v"

definition updateGeometry :: "QToggleView \<Rightarrow> QToggleView" where
  "updateGeometry v = v\<lparr>updateGeometry_calls := Suc (updateGeometry_calls v)\<rparr>"

text \<open>
  \<^verbatim>\<open>minimumHeight\<close>, \<^verbatim>\<open>minimumSize\<close> and \<^verbatim>\<open>sizeHint\<close>. What the base class
  computes, \<^verbatim>\<open>super().minimumSize()\<close>, is the toolkit's and depends on the content: it
  is the parameter \<open>super_minimumSize\<close>, any function of the state.
\<close>

definition minimumHeight ::
  "(QToggleView \<Rightarrow> QSize) \<Rightarrow> QToggleView \<Rightarrow> int \<times> QToggleView" where
  "minimumHeight super_minimumSize v =
     (if \<not> QToggleSwitch_on (toggleSwitch v) then (header_height v, v)
      else (let v' = updateGeometry v in (height (super_minimumSize v'), v')))"

definition minimumSize ::
  "(QToggleView \<Rightarrow> QSize) \<Rightarrow> QToggleView \<Rightarrow> QSize \<times> QToggleView" where
  "minimumSize super_minimumSize v =
     (let size' = super_minimumSize v;
          width' = width size';
          (height', v') = minimumHeight super_minimumSize v
      in (QSize width' height', v'))"

definition sizeHint ::
  "(QToggleView \<Rightarrow> QSize) \<Rightarrow> QToggleView \<Rightarrow> QSize \<times> QToggleView" where
  "sizeHint super_minimumSize v = minimumSize super_minimumSize v"

text \<open>
  What can happen to a view after its construction: a call of \<^verbatim>\<open>setOn\<close>, a change of
  the toggle control by the user, a call of \<^verbatim>\<open>addWidget\<close>.
\<close>

datatype event = SetOn bool | SwitchChanged bool | AddWidget widget

fun step :: "event \<Rightarrow> QToggleView \<Rightarrow> QToggleView" where
  "step (SetOn b) v = setOn b v"
| "step (SwitchChanged b) v = QToggleSwitch_change b v"
| "step (AddWidget w) v = addWidget w v"

fun run :: "event list \<Rightarrow> QToggleView \<Rightarrow> QToggleView" where
  "run [] v = v"
| "run (e # es) v = run es (step e v)"

subsection \<open>Concrete inputs\<close>

text \<open>
  A file system with both sample catalogs, the user's the newer one, and a directory
  for \<^verbatim>\<open>RPD_I18N_DIR\<close>; a toolkit whose \<^verbatim>\<open>BlankWidget()\<close> returns the object 3.
\<close>

definition example_fs :: filesystem where
  "example_fs =
     [''/home/user/.local/share'' \<mapsto>
        \<lparr>kind = Directory, readable = True, st_mtime = 50\<rparr>,
      ''/home/user/.local/share/locale/es/LC_MESSAGES/rapid-photo-downloader.mo'' \<mapsto>
        \<lparr>kind = RegularFile, readable = True, st_mtime = 200\<rparr>,
      ''/usr/share/locale/es/LC_MESSAGES/rapid-photo-downloader.mo'' \<mapsto>
        \<lparr>kind = RegularFile, readable = True, st_mtime = 100\<rparr>,
      ''/opt/i18n'' \<mapsto> \<lparr>kind = Directory, readable = True, st_mtime = 10\<rparr>]"

definition example_toolkit :: toolkit where
  "example_toolkit =
     \<lparr>is_dark_mode = False, DarkModeHeaderBackgroundName = ''dark'',
      HeaderBackgroundName = ''light'', new_BlankWidget = 3,
      widget_visible = (\<lambda>w. True), new_header_height = 24\<rparr>"

definition example_view :: "bool \<Rightarrow> bool \<Rightarrow> QToggleView" where
  "example_view display_alternate on' =
     QToggleView_init example_toolkit ''Rename'' display_alternate ''renamePanel''
       (Some ''Turn renaming on or off'') None None on' None"

section \<open>Properties of the locale lookup\<close>

subsection \<open>Strings and paths\<close>

lemma str_find_lower_bound: "- 1 \<le> str_find s sub"
  by (induction s) (auto simp: Let_def)

text \<open>\<^verbatim>\<open>s.find(sub) >= 0\<close> says that \<open>sub\<close> occurs in \<open>s\<close>.\<close>

lemma str_find_nonneg_iff: "0 \<le> str_find s sub \<longleftrightarrow> sublist sub s"
proof (induction s)
  case Nil
  then show ?case by simp
next
  case (Cons c cs)
  then show ?case
    using str_find_lower_bound [of cs sub]
    by (auto simp: Let_def sublist_Cons_right)
qed

lemma sample_translation_value:
  "sample_translation = ''es/LC_MESSAGES/rapid-photo-downloader.mo''"
  by (simp add: sample_translation_def i18n_domain_def startswith_sep_def endswith_sep_def)

lemma system_locale_path: "os_path_join ''/usr/share'' [''locale''] = ''/usr/share/locale''"
  by (simp add: startswith_sep_def endswith_sep_def)

lemma system_sample_path:
  "os_path_join ''/usr/share/locale'' [sample_translation] =
     ''/usr/share/locale/es/LC_MESSAGES/rapid-photo-downloader.mo''"
  by (simp add: sample_translation_value startswith_sep_def endswith_sep_def)

lemma user_sample_path:
  "os_path_join (os_path_join ''/home/user/.local/share'' [''locale'']) [sample_translation] =
     ''/home/user/.local/share/locale/es/LC_MESSAGES/rapid-photo-downloader.mo''"
  by (simp add: sample_translation_value startswith_sep_def endswith_sep_def)

subsection \<open>The loop over the two candidates\<close>

text \<open>The condition of the loop's \<^verbatim>\<open>if\<close> never raises.\<close>

lemma sample_is_newer_eq:
  "sample_is_newer fs p m =
     Inr (os_path_isfile fs p \<and> os_access_R_OK fs p \<and>
          (\<exists>t. os_path_getmtime fs p = Inr t \<and> m < t))"
  by (auto simp: sample_is_newer_def os_path_isfile_def os_access_R_OK_def
        os_path_getmtime_def split: option.splits)

text \<open>
  What the loop returns for two paths: the second candidate whenever its sample passes
  the test against the unchanged \<open>m\<close>, otherwise the first if its sample passes.
\<close>

lemma locale_loop_two:
  "locale_loop fs [a, b] m d =
     Inr (if os_path_isfile fs (os_path_join (os_path_join b [''locale'']) [sample_translation]) \<and>
             os_access_R_OK fs (os_path_join (os_path_join b [''locale'']) [sample_translation]) \<and>
             (\<exists>t. os_path_getmtime fs
                     (os_path_join (os_path_join b [''locale'']) [sample_translation]) = Inr t \<and>
                  m < t)
          then Some (os_path_join b [''locale''])
          else if os_path_isfile fs
                    (os_path_join (os_path_join a [''locale'']) [sample_translation]) \<and>
                  os_access_R_OK fs
                    (os_path_join (os_path_join a [''locale'']) [sample_translation]) \<and>
                  (\<exists>t. os_path_getmtime fs
                          (os_path_join (os_path_join a [''locale'']) [sample_translation]) = Inr t \<and>
                       m < t)
          then Some (os_path_join a [''locale''])
          else d)"
  by (simp add: sample_is_newer_eq Let_def del: os_path_join.simps)

lemma example_fs_lookups:
  "example_fs ''/home/user/.local/share'' =
     Some \<lparr>kind = Directory, readable = True, st_mtime = 50\<rparr>"
  "example_fs ''/home/user/.local/share/locale/es/LC_MESSAGES/rapid-photo-downloader.mo'' =
     Some \<lparr>kind = RegularFile, readable = True, st_mtime = 200\<rparr>"
  "example_fs ''/usr/share/locale/es/LC_MESSAGES/rapid-photo-downloader.mo'' =
     Some \<lparr>kind = RegularFile, readable = True, st_mtime = 100\<rparr>"
  "example_fs ''/opt/i18n'' = Some \<lparr>kind = Directory, readable = True, st_mtime = 10\<rparr>"
  "example_fs ''/opt/missing'' = None"
  by (simp_all add: example_fs_def)

lemma example_fs_calls:
  "Path_is_dir example_fs ''/home/user/.local/share''"
  "os_path_isdir example_fs ''/opt/i18n''"
  "\<not> os_path_isdir example_fs ''/opt/missing''"
  "os_path_isfile example_fs
     ''/home/user/.local/share/locale/es/LC_MESSAGES/rapid-photo-downloader.mo''"
  "os_access_R_OK example_fs
     ''/home/user/.local/share/locale/es/LC_MESSAGES/rapid-photo-downloader.mo''"
  "os_path_getmtime example_fs
     ''/home/user/.local/share/locale/es/LC_MESSAGES/rapid-photo-downloader.mo'' = Inr 200"
  "os_path_isfile example_fs ''/usr/share/locale/es/LC_MESSAGES/rapid-photo-downloader.mo''"
  "os_access_R_OK example_fs ''/usr/share/locale/es/LC_MESSAGES/rapid-photo-downloader.mo''"
  "os_path_getmtime example_fs
     ''/usr/share/locale/es/LC_MESSAGES/rapid-photo-downloader.mo'' = Inr 100"
  by (simp_all add: Path_is_dir_def os_path_isdir_def os_path_isfile_def os_access_R_OK_def
        os_path_getmtime_def example_fs_lookups)

lemma example_candidates:
  "locale_candidates example_fs ''/home/user/.local/share'' = Inr (Some ''/usr/share/locale'')"
proof -
  have "locale_loop example_fs [''/home/user/.local/share'', ''/usr/share''] 0 None =
          Inr (Some ''/usr/share/locale'')"
    by (subst locale_loop_two)
       (simp add: example_fs_calls system_locale_path system_sample_path user_sample_path
          del: os_path_join.simps)
  then show ?thesis
    by (simp add: locale_candidates_def example_fs_calls del: locale_loop.simps)
qed

subsection \<open>The claims about \<^verbatim>\<open>locale_directory\<close>\<close>

text \<open>
  Claim C1 (the newest readable sample decides) does not hold of the code. In
  \<open>example_fs\<close> both sample catalogs are readable regular files, the one under the
  user's data directory was modified at 200 and the one under \<^verbatim>\<open>/usr/share\<close> at 100,
  and no override applies; \<^verbatim>\<open>locale_directory\<close> returns \<^verbatim>\<open>/usr/share/locale\<close>, the
  directory of the older sample. The loop compares each modification time with
  \<^verbatim>\<open>locale_mtime\<close>, which stays at 0.0.
\<close>

theorem C1_older_sample_is_returned:
  "os_path_isfile example_fs
     (os_path_join (os_path_join ''/home/user/.local/share'' [''locale'']) [sample_translation]) \<and>
   os_access_R_OK example_fs
     (os_path_join (os_path_join ''/home/user/.local/share'' [''locale'']) [sample_translation]) \<and>
   os_path_getmtime example_fs
     (os_path_join (os_path_join ''/home/user/.local/share'' [''locale'']) [sample_translation])
     = Inr 200 \<and>
   os_path_isfile example_fs
     (os_path_join (os_path_join ''/usr/share'' [''locale'']) [sample_translation]) \<and>
   os_access_R_OK example_fs
     (os_path_join (os_path_join ''/usr/share'' [''locale'']) [sample_translation]) \<and>
   os_path_getmtime example_fs
     (os_path_join (os_path_join ''/usr/share'' [''locale'']) [sample_translation]) = Inr 100 \<and>
   locale_directory Map.empty example_fs ''/home/user/.local/share'' =
     Inr (Some (os_path_join ''/usr/share'' [''locale'']))"
proof -
  have "locale_directory Map.empty example_fs ''/home/user/.local/share'' =
          locale_candidates example_fs ''/home/user/.local/share''"
    by (simp add: locale_directory_def os_getenv_def)
  then show ?thesis
    by (simp add: example_candidates example_fs_calls system_locale_path system_sample_path
          user_sample_path del: os_path_join.simps)
qed

text \<open>
  Claim C3: when the value of \<^verbatim>\<open>SNAP_NAME\<close> contains \<^verbatim>\<open>rapid-photo-downloader\<close>,
  \<^verbatim>\<open>locale_directory\<close> returns one fixed path, whatever the file system holds and
  whatever \<^verbatim>\<open>SNAP\<close> is: \<^verbatim>\<open>os.path.join\<close> drops \<^verbatim>\<open>snap_dir\<close> in front of the
  absolute \<^verbatim>\<open>/usr/lib/locale\<close>, and no call looks at the file system.
\<close>

theorem C3_snap_returns_fixed_path:
  assumes "sublist ''rapid-photo-downloader'' (os_getenv env ''SNAP_NAME'' '''')"
  shows "locale_directory env fs data_home = Inr (Some ''/usr/lib/locale'')"
  using assms by (simp add: locale_directory_def str_find_nonneg_iff startswith_sep_def)

theorem C3_snap_returns_fixed_path_witness:
  "sublist ''rapid-photo-downloader''
     (os_getenv [''SNAP_NAME'' \<mapsto> ''rapid-photo-downloader'', ''SNAP'' \<mapsto> ''/snap/rpd/12'']
        ''SNAP_NAME'' '''') \<and>
   locale_directory [''SNAP_NAME'' \<mapsto> ''rapid-photo-downloader'', ''SNAP'' \<mapsto> ''/snap/rpd/12'']
     Map.empty ''/nonexistent'' = Inr (Some ''/usr/lib/locale'')"
proof -
  have h: "sublist ''rapid-photo-downloader''
     (os_getenv [''SNAP_NAME'' \<mapsto> ''rapid-photo-downloader'', ''SNAP'' \<mapsto> ''/snap/rpd/12'']
        ''SNAP_NAME'' '''')"
    by (simp add: os_getenv_def)
  from h C3_snap_returns_fixed_path [OF h, of Map.empty "''/nonexistent''"]
  show ?thesis by (rule conjI)
qed

text \<open>
  Claim C6: when the snap branch is not taken and \<^verbatim>\<open>RPD_I18N_DIR\<close> is set to \<open>d\<close>,
  \<^verbatim>\<open>locale_directory\<close> returns \<open>d\<close> itself if \<open>d\<close> is an existing directory, whatever
  the two candidates are, and otherwise goes on to the comparison of the candidates.
\<close>

theorem C6_override_directory:
  assumes "\<not> sublist ''rapid-photo-downloader'' (os_getenv env ''SNAP_NAME'' '''')"
    and "env ''RPD_I18N_DIR'' = Some d"
  shows "locale_directory env fs data_home =
           (if os_path_isdir fs d then Inr (Some d) else locale_candidates fs data_home)"
  using assms by (simp add: locale_directory_def str_find_nonneg_iff)

theorem C6_override_directory_witness:
  "\<not> sublist ''rapid-photo-downloader'' (os_getenv [''RPD_I18N_DIR'' \<mapsto> ''/opt/i18n''] ''SNAP_NAME'' '''') \<and>
   [''RPD_I18N_DIR'' \<mapsto> ''/opt/i18n''] ''RPD_I18N_DIR'' = Some ''/opt/i18n'' \<and>
   os_path_isdir example_fs ''/opt/i18n'' \<and>
   locale_directory [''RPD_I18N_DIR'' \<mapsto> ''/opt/i18n''] example_fs ''/home/user/.local/share'' =
     Inr (Some ''/opt/i18n'') \<and>
   \<not> sublist ''rapid-photo-downloader''
       (os_getenv [''RPD_I18N_DIR'' \<mapsto> ''/opt/missing''] ''SNAP_NAME'' '''') \<and>
   [''RPD_I18N_DIR'' \<mapsto> ''/opt/missing''] ''RPD_I18N_DIR'' = Some ''/opt/missing'' \<and>
   \<not> os_path_isdir example_fs ''/opt/missing'' \<and>
   locale_directory [''RPD_I18N_DIR'' \<mapsto> ''/opt/missing''] example_fs ''/home/user/.local/share'' =
     Inr (Some ''/usr/share/locale'')"
proof -
  have h1: "\<not> sublist ''rapid-photo-downloader''
              (os_getenv [''RPD_I18N_DIR'' \<mapsto> ''/opt/i18n''] ''SNAP_NAME'' '''')"
    by (simp add: os_getenv_def)
  have h2: "\<not> sublist ''rapid-photo-downloader''
              (os_getenv [''RPD_I18N_DIR'' \<mapsto> ''/opt/missing''] ''SNAP_NAME'' '''')"
    by (simp add: os_getenv_def)
  have e1: "[''RPD_I18N_DIR'' \<mapsto> ''/opt/i18n''] ''RPD_I18N_DIR'' = Some ''/opt/i18n''"
    by simp
  have e2: "[''RPD_I18N_DIR'' \<mapsto> ''/opt/missing''] ''RPD_I18N_DIR'' = Some ''/opt/missing''"
    by simp
  show ?thesis
    using h1 h2 e1 e2
      C6_override_directory [OF h1 e1, of example_fs "''/home/user/.local/share''"]
      C6_override_directory [OF h2 e2, of example_fs "''/home/user/.local/share''"]
    by (simp add: example_fs_calls example_candidates del: fun_upd_apply)
qed

text \<open>
  Claim C9: when no override applies and both sample catalogs are readable regular files
  with modification times above 0, \<^verbatim>\<open>locale_directory\<close> returns
  \<^verbatim>\<open>/usr/share/locale\<close>, whichever of the two times \<open>tu\<close> and \<open>ts\<close> is the larger. The
  assertion of line 69 holds in these states (the third hypothesis): a data directory
  that holds the sample catalog is a directory.
\<close>

theorem C9_system_locale_wins:
  assumes "\<not> sublist ''rapid-photo-downloader'' (os_getenv env ''SNAP_NAME'' '''')"
    and "\<not> (\<exists>d. env ''RPD_I18N_DIR'' = Some d \<and> os_path_isdir fs d)"
    and "Path_is_dir fs data_home"
    and "os_path_isfile fs
           (os_path_join (os_path_join data_home [''locale'']) [sample_translation])"
    and "os_access_R_OK fs
           (os_path_join (os_path_join data_home [''locale'']) [sample_translation])"
    and "os_path_getmtime fs
           (os_path_join (os_path_join data_home [''locale'']) [sample_translation]) = Inr tu"
    and "0 < tu"
    and "os_path_isfile fs
           (os_path_join (os_path_join ''/usr/share'' [''locale'']) [sample_translation])"
    and "os_access_R_OK fs
           (os_path_join (os_path_join ''/usr/share'' [''locale'']) [sample_translation])"
    and "os_path_getmtime fs
           (os_path_join (os_path_join ''/usr/share'' [''locale'']) [sample_translation]) = Inr ts"
    and "0 < ts"
  shows "locale_directory env fs data_home = Inr (Some ''/usr/share/locale'')"
proof -
  have "locale_directory env fs data_home = locale_candidates fs data_home"
    using assms(1,2) by (auto simp: locale_directory_def str_find_nonneg_iff Let_def)
  also have "\<dots> = locale_loop fs [data_home, ''/usr/share''] 0 None"
    using assms(3) by (simp add: locale_candidates_def)
  also have "\<dots> = Inr (Some (os_path_join ''/usr/share'' [''locale'']))"
    using assms(8-11) by (simp only: locale_loop_two) simp
  finally show ?thesis by (simp only: system_locale_path)
qed

theorem C9_system_locale_wins_witness:
  "\<not> sublist ''rapid-photo-downloader'' (os_getenv Map.empty ''SNAP_NAME'' '''') \<and>
   \<not> (\<exists>d. (Map.empty :: environ) ''RPD_I18N_DIR'' = Some d \<and> os_path_isdir example_fs d) \<and>
   Path_is_dir example_fs ''/home/user/.local/share'' \<and>
   os_path_getmtime example_fs
     (os_path_join (os_path_join ''/home/user/.local/share'' [''locale'']) [sample_translation])
     = Inr 200 \<and>
   os_path_getmtime example_fs
     (os_path_join (os_path_join ''/usr/share'' [''locale'']) [sample_translation]) = Inr 100 \<and>
   locale_directory Map.empty example_fs ''/home/user/.local/share'' =
     Inr (Some ''/usr/share/locale'')"
proof -
  have h1: "\<not> sublist ''rapid-photo-downloader'' (os_getenv Map.empty ''SNAP_NAME'' '''')"
    by (simp add: os_getenv_def)
  have h2: "\<not> (\<exists>d. (Map.empty :: environ) ''RPD_I18N_DIR'' = Some d \<and> os_path_isdir example_fs d)"
    by simp
  have u: "os_path_join (os_path_join ''/home/user/.local/share'' [''locale'']) [sample_translation]
             = ''/home/user/.local/share/locale/es/LC_MESSAGES/rapid-photo-downloader.mo''"
    by (rule user_sample_path)
  have s: "os_path_join (os_path_join ''/usr/share'' [''locale'']) [sample_translation]
             = ''/usr/share/locale/es/LC_MESSAGES/rapid-photo-downloader.mo''"
    by (simp only: system_locale_path system_sample_path)
  have r: "locale_directory Map.empty example_fs ''/home/user/.local/share'' =
             Inr (Some ''/usr/share/locale'')"
    by (rule C9_system_locale_wins [OF h1 h2, where tu = 200 and ts = 100])
       (simp_all add: u s example_fs_calls del: os_path_join.simps)
  show ?thesis
    using h1 h2 r by (simp only: u s example_fs_calls) simp
qed

subsection \<open>The claim about the translation's installation\<close>



section \<open>Properties of the toggle view\<close>

subsection \<open>What each method leaves and what it changes\<close>

lemma toggled_fields:
  "content (toggled val v) = content v"
  "alternateWidget (toggled val v) = alternateWidget v"
  "toggleSwitch (toggled val v) = toggleSwitch v"
  "header_height (toggled val v) = header_height v"
  "valueChanged (toggled val v) = valueChanged v @ [on v]"
  by (auto simp: toggled_def setVisible_def emit_valueChanged_def on_def Let_def
        split: option.splits)

lemma on_toggled: "on (toggled val v) = on v"
  by (simp add: on_def toggled_fields)

lemma toggled_without_content:
  "content v = None \<Longrightarrow> toggled val v = v\<lparr>valueChanged := valueChanged v @ [on v]\<rparr>"
  by (simp add: toggled_def emit_valueChanged_def)

text \<open>
  With content \<open>c\<close> and a placeholder \<open>a\<close> that is another widget, the slot leaves \<open>c\<close>
  visible exactly when the switch is on, and \<open>a\<close> exactly when it is off.
\<close>

lemma toggled_visible:
  assumes "content v = Some c" and "alternateWidget v = Some a" and "c \<noteq> a"
  shows "visible (toggled val v) c = on v \<and> visible (toggled val v) a = (\<not> on v)"
  using assms
  by (simp add: toggled_def setVisible_def emit_valueChanged_def on_def Let_def)

lemma toggled_visible_content:
  assumes "content v = Some c" and "alternateWidget v \<noteq> Some c"
  shows "visible (toggled val v) c = on v"
  using assms
  by (cases "alternateWidget v")
     (simp_all add: toggled_def setVisible_def emit_valueChanged_def on_def Let_def)

lemma change_fields:
  "content (QToggleSwitch_change b v) = content v"
  "alternateWidget (QToggleSwitch_change b v) = alternateWidget v"
  "header_height (QToggleSwitch_change b v) = header_height v"
  "on (QToggleSwitch_change b v) = b"
  "valueChanged (QToggleSwitch_change b v) = valueChanged v @ [b]"
  by (simp_all add: QToggleSwitch_change_def toggled_fields on_toggled)
     (simp_all add: on_def QToggleSwitch_on_def)

lemma change_without_content:
  "content v = None \<Longrightarrow> visible (QToggleSwitch_change b v) = visible v"
  by (simp add: QToggleSwitch_change_def toggled_without_content)

lemma change_visible:
  assumes "content v = Some c" and "alternateWidget v = Some a" and "c \<noteq> a"
  shows "visible (QToggleSwitch_change b v) c = b \<and> visible (QToggleSwitch_change b v) a = (\<not> b)"
proof -
  let ?v = "v\<lparr>toggleSwitch := (toggleSwitch v)\<lparr>switch_on := b\<rparr>\<rparr>"
  have "content ?v = Some c" and "alternateWidget ?v = Some a" and "on ?v = b"
    using assms by (simp_all add: on_def QToggleSwitch_on_def)
  with toggled_visible [of ?v c a "if b then 1 else 0"] assms(3) show ?thesis
    by (simp add: QToggleSwitch_change_def)
qed

lemma addWidget_fields:
  "content (addWidget w v) = Some w"
  "alternateWidget (addWidget w v) = alternateWidget v"
  "header_height (addWidget w v) = header_height v"
  "on (addWidget w v) = on v"
  "valueChanged (addWidget w v) = valueChanged v @ [on v]"
  by (simp_all add: addWidget_def toggled_fields on_toggled QPanelView_addWidget_def)
     (simp_all add: on_def)

lemma addWidget_visible:
  assumes "alternateWidget v = Some a" and "w \<noteq> a"
  shows "visible (addWidget w v) w = on v \<and> visible (addWidget w v) a = (\<not> on v)"
proof -
  let ?v = "QPanelView_addWidget w v"
  have "content ?v = Some w" and "alternateWidget ?v = Some a" and "on ?v = on v"
    using assms by (simp_all add: QPanelView_addWidget_def on_def)
  with toggled_visible [of ?v w a 0] assms(2) show ?thesis
    by (simp add: addWidget_def)
qed

lemma addWidget_visible_content:
  assumes "alternateWidget v \<noteq> Some w"
  shows "visible (addWidget w v) w = on v"
proof -
  let ?v = "QPanelView_addWidget w v"
  have "content ?v = Some w" and "alternateWidget ?v \<noteq> Some w" and "on ?v = on v"
    using assms by (simp_all add: QPanelView_addWidget_def on_def)
  with toggled_visible_content [of ?v w 0] show ?thesis
    by (simp add: addWidget_def)
qed

text \<open>
  When the widget attached is the placeholder itself, the two calls of
  \<^verbatim>\<open>setVisible\<close> in the slot write the same flag, and the second one stays.
\<close>

lemma toggled_visible_placeholder:
  assumes "content v = Some a" and "alternateWidget v = Some a"
  shows "visible (toggled val v) a = (\<not> on v)"
  using assms
  by (simp add: toggled_def setVisible_def emit_valueChanged_def on_def Let_def)

lemma addWidget_visible_placeholder:
  assumes "alternateWidget v = Some a"
  shows "visible (addWidget a v) a = (\<not> on v)"
proof -
  let ?v = "QPanelView_addWidget a v"
  have "content ?v = Some a" and "alternateWidget ?v = Some a" and "on ?v = on v"
    using assms by (simp_all add: QPanelView_addWidget_def on_def)
  with toggled_visible_placeholder [of ?v a 0] show ?thesis
    by (simp add: addWidget_def)
qed

subsection \<open>The constructor\<close>

lemma init_fields:
  "content (QToggleView_init tk l d n tt hc hfc b p) = None"
  "alternateWidget (QToggleView_init tk l d n tt hc hfc b p) =
     (if d then Some (new_BlankWidget tk) else None)"
  "header_height (QToggleView_init tk l d n tt hc hfc b p) = new_header_height tk"
  "on (QToggleView_init tk l d n tt hc hfc b p) = b"
  "valueChanged (QToggleView_init tk l d n tt hc hfc b p) = [b]"
  unfolding QToggleView_init_def QToggleSwitch_setOn_def Let_def
  by (cases tt; simp add: change_fields QPanelView_init_def)+

lemma init_visible:
  "visible (QToggleView_init tk l d n tt hc hfc b p) = widget_visible tk"
  unfolding QToggleView_init_def QToggleSwitch_setOn_def Let_def
  by (cases tt; simp add: change_without_content QPanelView_init_def)

subsection \<open>Sequences of events\<close>

lemma step_alternateWidget: "alternateWidget (step e v) = alternateWidget v"
  by (cases e)
     (simp_all add: setOn_def QToggleSwitch_setOn_def change_fields addWidget_fields)

lemma run_alternateWidget: "alternateWidget (run es v) = alternateWidget v"
  by (induction es arbitrary: v) (simp_all add: step_alternateWidget)

lemma run_append: "run (es @ es') v = run es' (run es v)"
  by (induction es arbitrary: v) simp_all

lemma step_visible:
  assumes "alternateWidget v = Some a" and "content (step e v) = Some c" and "c \<noteq> a"
  shows "visible (step e v) c = on (step e v) \<and> visible (step e v) a = (\<not> on (step e v))"
proof (cases e)
  case (SetOn b)
  with assms have "content v = Some c"
    by (simp add: setOn_def QToggleSwitch_setOn_def change_fields)
  with SetOn assms(1,3) change_visible [of v c a b] show ?thesis
    by (simp add: setOn_def QToggleSwitch_setOn_def change_fields)
next
  case (SwitchChanged b)
  with assms have "content v = Some c"
    by (simp add: change_fields)
  with SwitchChanged assms(1,3) change_visible [of v c a b] show ?thesis
    by (simp add: change_fields)
next
  case (AddWidget w)
  with assms have "w = c"
    by (simp add: addWidget_fields)
  with AddWidget assms(1,3) addWidget_visible [of v a c] show ?thesis
    by (simp add: addWidget_fields)
qed

subsection \<open>The claims about \<^verbatim>\<open>QToggleView\<close>\<close>

text \<open>
  Claim C2: take a view constructed with \<^verbatim>\<open>display_alternate = True\<close> and any sequence
  of \<^verbatim>\<open>setOn\<close> calls, changes of the toggle control and \<^verbatim>\<open>addWidget\<close> calls. After
  each of them, if a content widget \<open>c\<close> is attached, then \<open>c\<close> is visible exactly when
  the view is on and the placeholder \<^verbatim>\<open>alternateWidget\<close> exactly when it is off, so one
  of the two is visible and the other is not. This holds as amended: for a content that
  is a widget other than the placeholder, the \<^verbatim>\<open>BlankWidget\<close> that the constructor
  creates for the view (the third hypothesis). The slot has no case for a content that is
  the placeholder itself; what it does then is shown after the witness.
\<close>

theorem C2_content_and_alternate_complementary:
  assumes "s = run (es @ [e])
                 (QToggleView_init tk label' True object_name toggleToolTip headerColor'
                    headerFontColor' on' parent')"
    and "content s = Some c"
    and "c \<noteq> new_BlankWidget tk"
  shows "alternateWidget s = Some (new_BlankWidget tk) \<and>
         visible s c = on s \<and>
         visible s (new_BlankWidget tk) = (\<not> on s) \<and>
         visible s c \<noteq> visible s (new_BlankWidget tk)"
proof -
  let ?v = "run es (QToggleView_init tk label' True object_name toggleToolTip headerColor'
                      headerFontColor' on' parent')"
  have a: "alternateWidget ?v = Some (new_BlankWidget tk)"
    by (simp add: run_alternateWidget init_fields)
  have s: "s = step e ?v"
    using assms(1) by (simp add: run_append)
  have "visible (step e ?v) c = on (step e ?v) \<and>
        visible (step e ?v) (new_BlankWidget tk) = (\<not> on (step e ?v))"
    using a assms(2,3) s by (intro step_visible) simp_all
  with a s show ?thesis
    by (simp add: step_alternateWidget)
qed

theorem C2_content_and_alternate_complementary_witness:
  "content (run ([AddWidget 7] @ [SetOn False]) (example_view True True)) = Some 7 \<and>
   (7 :: widget) \<noteq> new_BlankWidget example_toolkit \<and>
   alternateWidget (run ([AddWidget 7] @ [SetOn False]) (example_view True True)) = Some 3 \<and>
   on (run ([AddWidget 7] @ [SetOn False]) (example_view True True)) = False \<and>
   visible (run ([AddWidget 7] @ [SetOn False]) (example_view True True)) 7 = False \<and>
   visible (run ([AddWidget 7] @ [SetOn False]) (example_view True True)) 3 = True"
proof -
  let ?s = "run ([AddWidget 7] @ [SetOn False]) (example_view True True)"
  have s: "?s = run ([AddWidget 7] @ [SetOn False])
                  (QToggleView_init example_toolkit ''Rename'' True ''renamePanel''
                     (Some ''Turn renaming on or off'') None None True None)"
    by (simp only: example_view_def)
  have c: "content ?s = Some 7"
    by (simp add: setOn_def QToggleSwitch_setOn_def change_fields addWidget_fields)
  have d: "(7 :: widget) \<noteq> new_BlankWidget example_toolkit"
    by (simp add: example_toolkit_def)
  have b: "new_BlankWidget example_toolkit = 3"
    by (simp add: example_toolkit_def)
  have o: "on ?s = False"
    by (simp add: setOn_def QToggleSwitch_setOn_def change_fields)
  from C2_content_and_alternate_complementary [OF s c d] c d o
  show ?thesis by (simp only: b) simp
qed

text \<open>
  Claim C2 as it is stated, for every sequence of calls, does not hold. On a view
  constructed on and with the placeholder 3, \<^verbatim>\<open>addWidget(view.alternateWidget)\<close>
  attaches the placeholder as the content. The slot then calls \<^verbatim>\<open>setVisible(True)\<close>
  and \<^verbatim>\<open>setVisible(False)\<close> on the one widget: the content is attached, the view is on,
  and the content is hidden.
\<close>

theorem C2_placeholder_as_content_counterexample:
  "new_BlankWidget example_toolkit = 3 \<and>
   content (run [AddWidget 3] (example_view True True)) = Some 3 \<and>
   alternateWidget (run [AddWidget 3] (example_view True True)) = Some 3 \<and>
   on (run [AddWidget 3] (example_view True True)) = True \<and>
   visible (run [AddWidget 3] (example_view True True)) 3 = False \<and>
   visible (run [AddWidget 3] (example_view True True)) 3 \<noteq>
     on (run [AddWidget 3] (example_view True True))"
proof -
  have b: "new_BlankWidget example_toolkit = 3"
    by (simp add: example_toolkit_def)
  have a: "alternateWidget (example_view True True) = Some 3"
    by (simp add: example_view_def init_fields b)
  have o: "on (example_view True True) = True"
    by (simp add: example_view_def init_fields)
  have v: "visible (addWidget 3 (example_view True True)) 3 = False"
    using addWidget_visible_placeholder [OF a] by (simp add: o)
  show ?thesis
    by (simp add: b a o v addWidget_fields)
qed

text \<open>
  Claim C5: a call of \<^verbatim>\<open>setOn\<close>, a change of the toggle control, a call of
  \<^verbatim>\<open>addWidget\<close> and the construction of the view each add one emission of
  \<^verbatim>\<open>valueChanged\<close> to those made before (the constructor starts with none), and its
  payload is the toggle state the view is left in.
\<close>

theorem C5_one_valueChanged_per_transition:
  "valueChanged (setOn b v) = valueChanged v @ [on (setOn b v)] \<and>
   on (setOn b v) = b \<and>
   valueChanged (QToggleSwitch_change b v) = valueChanged v @ [on (QToggleSwitch_change b v)] \<and>
   on (QToggleSwitch_change b v) = b \<and>
   valueChanged (addWidget w v) = valueChanged v @ [on (addWidget w v)] \<and>
   on (addWidget w v) = on v \<and>
   valueChanged (QToggleView_init tk label' display_alternate object_name toggleToolTip
                   headerColor' headerFontColor' on' parent') =
     [on (QToggleView_init tk label' display_alternate object_name toggleToolTip
            headerColor' headerFontColor' on' parent')] \<and>
   on (QToggleView_init tk label' display_alternate object_name toggleToolTip
         headerColor' headerFontColor' on' parent') = on'"
  by (simp add: setOn_def QToggleSwitch_setOn_def change_fields addWidget_fields init_fields)

text \<open>
  Claim C7: a view constructed with the initial state off, to which \<open>w\<close> is then attached
  with \<^verbatim>\<open>addWidget\<close>, has \<open>w\<close> hidden with no further call; with any initial state
  \<open>on'\<close>, the visibility of \<open>w\<close> after \<^verbatim>\<open>addWidget\<close> is \<open>on'\<close>. This holds as
  amended: for every widget \<open>w\<close> but the \<^verbatim>\<open>BlankWidget\<close> the constructor has just
  created as the view's own placeholder (a restriction only when
  \<^verbatim>\<open>display_alternate\<close> is true). What the code does for the placeholder is shown after
  the witness.
\<close>

theorem C7_attached_content_follows_state:
  assumes "display_alternate \<longrightarrow> w \<noteq> new_BlankWidget tk"
  shows "visible (addWidget w
                    (QToggleView_init tk label' display_alternate object_name toggleToolTip
                       headerColor' headerFontColor' False parent')) w = False \<and>
         visible (addWidget w
                    (QToggleView_init tk label' display_alternate object_name toggleToolTip
                       headerColor' headerFontColor' on' parent')) w = on'"
proof -
  have "alternateWidget (QToggleView_init tk label' display_alternate object_name toggleToolTip
                           headerColor' headerFontColor' b parent') \<noteq> Some w" for b
    using assms by (auto simp: init_fields)
  then show ?thesis
    by (simp add: addWidget_visible_content init_fields)
qed

theorem C7_attached_content_follows_state_witness:
  "(7 :: widget) \<noteq> new_BlankWidget example_toolkit \<and>
   visible (addWidget 7 (example_view True False)) 7 = False \<and>
   widget_visible example_toolkit 7 = True"
proof -
  have h: "True \<longrightarrow> (7 :: widget) \<noteq> new_BlankWidget example_toolkit"
    by (simp add: example_toolkit_def)
  from C7_attached_content_follows_state [OF h] h
  show ?thesis by (simp add: example_view_def example_toolkit_def)
qed

text \<open>
  Claim C7 as it is stated, for every widget \<open>w\<close>, does not hold. A view constructed off
  and with \<^verbatim>\<open>display_alternate\<close> true has the placeholder 3; after
  \<^verbatim>\<open>addWidget(view.alternateWidget)\<close> the slot calls \<^verbatim>\<open>setVisible(False)\<close> and then
  \<^verbatim>\<open>setVisible(True)\<close> on it, so the attached widget is visible.
\<close>

theorem C7_placeholder_attached_counterexample:
  "alternateWidget (example_view True False) = Some 3 \<and>
   on (example_view True False) = False \<and>
   content (addWidget 3 (example_view True False)) = Some 3 \<and>
   visible (addWidget 3 (example_view True False)) 3 = True"
proof -
  have a: "alternateWidget (example_view True False) = Some 3"
    by (simp add: example_view_def init_fields example_toolkit_def)
  have o: "on (example_view True False) = False"
    by (simp add: example_view_def init_fields)
  have v: "visible (addWidget 3 (example_view True False)) 3 = True"
    using addWidget_visible_placeholder [OF a] by (simp add: o)
  show ?thesis
    by (simp add: a o v addWidget_fields)
qed

text \<open>
  Claim C8: in a collapsed view \<^verbatim>\<open>minimumHeight\<close> returns the height of the header,
  whatever the base class computes from the content (\<open>super_minimumSize\<close> is arbitrary),
  and \<^verbatim>\<open>minimumSize\<close> has that value as its height beside the width of the base class.
\<close>

theorem C8_collapsed_minimum_height:
  assumes "\<not> on v"
  shows "minimumHeight super_minimumSize v = (header_height v, v) \<and>
         fst (minimumSize super_minimumSize v) =
           QSize (width (super_minimumSize v)) (fst (minimumHeight super_minimumSize v)) \<and>
         height (fst (minimumSize super_minimumSize v)) = header_height v"
  using assms by (simp add: minimumHeight_def minimumSize_def on_def)

theorem C8_collapsed_minimum_height_witness:
  "\<not> on (addWidget 7 (example_view True False)) \<and>
   minimumHeight (\<lambda>v. QSize 200 (case content v of None \<Rightarrow> 24 | Some c \<Rightarrow> 324))
       (addWidget 7 (example_view True False)) =
     (24, addWidget 7 (example_view True False)) \<and>
   fst (minimumSize (\<lambda>v. QSize 200 (case content v of None \<Rightarrow> 24 | Some c \<Rightarrow> 324))
          (addWidget 7 (example_view True False))) = QSize 200 24"
proof -
  have h: "\<not> on (addWidget 7 (example_view True False))"
    by (simp add: addWidget_fields example_view_def init_fields)
  have hh: "header_height (addWidget 7 (example_view True False)) = 24"
    by (simp add: addWidget_fields example_view_def init_fields example_toolkit_def)
  from C8_collapsed_minimum_height [OF h,
      of "\<lambda>v. QSize 200 (case content v of None \<Rightarrow> 24 | Some c \<Rightarrow> 324)"] h
  show ?thesis by (simp add: hh)
qed

text \<open>
  Claim C10: while no content is attached, the slot \<^verbatim>\<open>toggled\<close> only emits
  \<^verbatim>\<open>valueChanged\<close> with the current state; reached through \<^verbatim>\<open>setOn\<close> or through a
  change of the toggle control it emits the new state. No visibility flag changes, that
  of \<^verbatim>\<open>alternateWidget\<close> included.
\<close>

theorem C10_no_content_no_visibility_change:
  assumes "content v = None"
  shows "toggled val v = v\<lparr>valueChanged := valueChanged v @ [on v]\<rparr> \<and>
         visible (toggled val v) = visible v \<and>
         visible (setOn b v) = visible v \<and>
         valueChanged (setOn b v) = valueChanged v @ [b] \<and>
         visible (QToggleSwitch_change b v) = visible v \<and>
         valueChanged (QToggleSwitch_change b v) = valueChanged v @ [b]"
  using assms
  by (simp add: toggled_without_content setOn_def QToggleSwitch_setOn_def
        change_without_content change_fields)

theorem C10_no_content_no_visibility_change_witness:
  "content (example_view True True) = None \<and>
   alternateWidget (example_view True True) = Some 3 \<and>
   visible (example_view True True) 3 = True \<and>
   visible (setOn False (example_view True True)) 3 = True \<and>
   valueChanged (setOn False (example_view True True)) = [True, False]"
proof -
  have h: "content (example_view True True) = None"
    by (simp add: example_view_def init_fields)
  have a: "alternateWidget (example_view True True) = Some 3"
    by (simp add: example_view_def init_fields example_toolkit_def)
  have v: "visible (example_view True True) 3 = True"
    by (simp add: example_view_def init_visible example_toolkit_def)
  have e: "valueChanged (example_view True True) = [True]"
    by (simp add: example_view_def init_fields)
  from C10_no_content_no_visibility_change [OF h, of 0 False] h a v e
  show ?thesis by simp
qed

end
